theory Spec2Isabelle
  imports Main "HOL-Library.Word"
begin

section \<open>The Pipeline coordinator of pex\_harness (src/Pipeline.cc)\<close>

text \<open>
  The class \<^verbatim>\<open>Pipeline\<close> drives a fleet of Slice workers through MPI. Its methods are
  embedded as functions on a pair of the object's fields and the history of the calls the
  process has made to the outside (MPI and the logger). What the outside answers (return
  codes, the universe size, the content of storage the program never wrote) is the
  environment \<open>env\<close>. A method that calls \<^verbatim>\<open>exit\<close> does not return: it yields \<open>Exited\<close>.
  Where C++ gives the program no meaning (a write past the end of an array, an array of
  negative size, a read through a pointer that was never set, a signed overflow) the
  outcome is \<open>Undefined\<close>.

  Left out: the constructor and destructor, \<^verbatim>\<open>initializeLogger\<close> and LogUtils.cc (the
  set-up of the logger), and the limits of memory (the arrays are as large as their
  bounds say).
\<close>

subsection \<open>Data\<close>

type_synonym cint = "32 word"  \<comment> \<open>C's \<^verbatim>\<open>int\<close>; read as a signed value with \<open>sint\<close>\<close>

type_synonym comm = nat  \<comment> \<open>an \<^verbatim>\<open>MPI_Comm\<close> handle\<close>

datatype payload = CharBuf "char list" | IntBuf "cint list"

text \<open>
  A \<^verbatim>\<open>char*\<close> as the source uses it: never assigned, null, or the address of a C string
  (held as the string it points to).
\<close>

datatype char_ptr = Indeterminate | NullPtr | PtrTo string

text \<open>
  One event per call to the outside, with the arguments that vary. Every broadcast of the
  source has root \<^verbatim>\<open>MPI_ROOT\<close>; the spawn has \<^verbatim>\<open>MPI_INFO_NULL\<close>, root 0 and
  \<^verbatim>\<open>MPI_COMM_WORLD\<close>. \<open>MPI_Bcast d n c\<close> carries the \<open>n\<close> elements read from the buffer.
\<close>

datatype event =
    MPI_Init
  | MPI_Comm_rank
  | MPI_Comm_size
  | MPI_Attr_get
  | MPI_Comm_spawn string "string list" cint
  | MPI_Bcast payload cint comm
  | MPI_Barrier comm
  | MPI_Finalize
  | Log_INFO string

type_synonym world = "event list"  \<comment> \<open>oldest event first\<close>

record env =
  mpi_ret :: "world \<Rightarrow> event \<Rightarrow> cint"
    \<comment> \<open>the code the MPI library returns for a call, given what happened before\<close>
  uninit :: "world \<Rightarrow> nat \<Rightarrow> char"
    \<comment> \<open>the indeterminate content of byte \<open>i\<close> of a fresh automatic array\<close>
  world_rank :: cint
  world_size :: cint
  universe_attr :: "cint option"
    \<comment> \<open>\<open>None\<close>: \<^verbatim>\<open>MPI_Attr_get\<close> sets \<^verbatim>\<open>flag\<close> to false and leaves the pointer alone\<close>
  spawn_comm :: "world \<Rightarrow> comm"
  log_threshold :: int
  lev_text :: "int \<Rightarrow> string"
    \<comment> \<open>the C string \<^verbatim>\<open>lev\<close> yields once the threshold has been written into the stream\<close>

record Pipeline =
  mpiError :: cint
  rank :: cint
  size_world :: cint  \<comment> \<open>the field \<^verbatim>\<open>size\<close>\<close>
  universeSize :: cint
  nSlices :: cint
  bufferSize :: cint
  runId :: char_ptr  \<comment> \<open>\<^verbatim>\<open>_runId\<close>\<close>
  policyName :: char_ptr  \<comment> \<open>\<^verbatim>\<open>_policyName\<close>\<close>
  sliceIntercomm :: comm

datatype 'a outcome = Returned 'a | Exited int world | Undefined

definition MPI_SUCCESS :: cint where
  "MPI_SUCCESS = 0"

subsection \<open>The library functions the source calls\<close>

definition NUL :: char where
  "NUL = CHR 0x00"

text \<open>
  \<^verbatim>\<open>char a[n]\<close>: an automatic array of \<open>n\<close> bytes that nothing has written yet. A
  negative bound has no meaning; a bound of zero is accepted, as GNU C++ accepts it.
\<close>

definition new_array :: "env \<Rightarrow> world \<Rightarrow> cint \<Rightarrow> char list option" where
  "new_array e w n = (if sint n < 0 then None else Some (map (uninit e w) [0..<nat (sint n)]))"

text \<open>
  \<^verbatim>\<open>strcpy(dst, src)\<close> writes the characters of \<open>src\<close> and a terminating NUL at the start
  of \<open>dst\<close> and leaves the rest of \<open>dst\<close> as it was. It takes no capacity and makes no
  check: when the array is too short the write runs past its end.
\<close>

definition strcpy :: "char list \<Rightarrow> string \<Rightarrow> char list option" where
  "strcpy dst src =
     (if length dst < length src + 1 then None
      else Some (src @ [NUL] @ drop (length src + 1) dst))"

text \<open>What a reader of a C string sees in a buffer: the bytes before the first NUL.\<close>

definition c_str :: "char list \<Rightarrow> string" where
  "c_str buf = takeWhile (\<lambda>c. c \<noteq> NUL) buf"

text \<open>Decimal output of an integer, as \<^verbatim>\<open>operator<<\<close> and \<^verbatim>\<open>%d\<close> print it.\<close>

fun show_nat :: "nat \<Rightarrow> string" where
  "show_nat n =
     (if n < 10 then [''0123456789'' ! n]
      else show_nat (n div 10) @ [''0123456789'' ! (n mod 10)])"

declare show_nat.simps [simp del]

definition show_int :: "int \<Rightarrow> string" where
  "show_int i = (if i < 0 then CHR ''-'' # show_nat (nat (- i)) else show_nat (nat i))"

text \<open>An MPI call: the event is recorded and the library's return code comes back.\<close>

definition mpi :: "env \<Rightarrow> event \<Rightarrow> world \<Rightarrow> cint \<times> world" where
  "mpi e ev w = (mpi_ret e w ev, w @ [ev])"

text \<open>\<^verbatim>\<open>MPI_Finalize(); exit(1);\<close>\<close>

definition fatal :: "world \<Rightarrow> 'a outcome" where
  "fatal w = Exited 1 (w @ [MPI_Finalize])"

subsection \<open>Pipeline::initializeMPI, configurePipeline, initialize\<close>

text \<open>
  \<^verbatim>\<open>flag\<close> is never read: when the attribute is not set, \<^verbatim>\<open>*universeSizep\<close> reads
  through a pointer nobody set. \<^verbatim>\<open>universeSize-1\<close> is a signed subtraction, which has no
  meaning when \<^verbatim>\<open>universeSize\<close> is the least \<^verbatim>\<open>int\<close>.
\<close>

definition initializeMPI :: "env \<Rightarrow> Pipeline \<times> world \<Rightarrow> (Pipeline \<times> world) outcome" where
  "initializeMPI e st =
     (case st of (p, w) \<Rightarrow>
      (case mpi e MPI_Init w of (r1, w1) \<Rightarrow>
       if r1 \<noteq> MPI_SUCCESS then fatal w1 else
      (case mpi e MPI_Comm_rank w1 of (r2, w2) \<Rightarrow>
       if r2 \<noteq> MPI_SUCCESS then fatal w2 else
      (case mpi e MPI_Comm_size w2 of (r3, w3) \<Rightarrow>
       if r3 \<noteq> MPI_SUCCESS then fatal w3 else
      (case mpi e MPI_Attr_get w3 of (r4, w4) \<Rightarrow>
       if r4 \<noteq> MPI_SUCCESS then fatal w4 else
      (case universe_attr e of
         None \<Rightarrow> Undefined
       | Some u \<Rightarrow>
           if sint u = - (2 ^ 31) then Undefined else
           Returned (p\<lparr>mpiError := r4, rank := world_rank e, size_world := world_size e,
                       universeSize := u, nSlices := u - 1\<rparr>, w4)))))))"

definition configurePipeline :: "Pipeline \<Rightarrow> Pipeline" where
  "configurePipeline p = p\<lparr>bufferSize := 256\<rparr>"

definition initialize :: "env \<Rightarrow> Pipeline \<times> world \<Rightarrow> (Pipeline \<times> world) outcome" where
  "initialize e st =
     (case initializeMPI e st of
        Returned (p, w) \<Rightarrow> Returned (configurePipeline p, w)
      | Exited c w \<Rightarrow> Exited c w
      | Undefined \<Rightarrow> Undefined)"

definition getUniverseSize :: "Pipeline \<Rightarrow> cint" where
  "getUniverseSize p = universeSize p"

subsection \<open>Pipeline::startSlices\<close>

text \<open>
  The argument vector is the array \<^verbatim>\<open>{_policyName, _runId, "-l", lev.c_str(), NULL}\<close>.
  \<^verbatim>\<open>MPI_Comm_spawn\<close> reads it as C reads every argument vector, up to its first null
  pointer: \<open>argv_strings\<close>. Copying a pointer that was never assigned has no meaning.
  \<^verbatim>\<open>std::ostringstream\<close> has no member \<^verbatim>\<open>c_str\<close>, so the source does not say how the
  fourth entry is obtained from the stream \<^verbatim>\<open>lev\<close>, into which the threshold of the
  default log has been written; the environment gives that string, \<open>lev_text\<close>.
  \<^verbatim>\<open>int errcodes[nSlices]\<close> is an array whose bound is \<^verbatim>\<open>nSlices\<close>. The block obtained
  from \<^verbatim>\<open>malloc\<close> is never used.
\<close>

fun argv_strings :: "char_ptr list \<Rightarrow> string list" where
  "argv_strings [] = []"
| "argv_strings (PtrTo s # ps) = s # argv_strings ps"
| "argv_strings (q # ps) = []"

definition startSlices :: "env \<Rightarrow> Pipeline \<times> world \<Rightarrow> (Pipeline \<times> world) outcome" where
  "startSlices e st =
     (case st of (p, w) \<Rightarrow>
      let lev = lev_text e (log_threshold e) in
      if sint (nSlices p) < 0 then Undefined else
      if policyName p = Indeterminate \<or> runId p = Indeterminate then Undefined else
      let myexec = ''runSlice.py'';
          argv = [policyName p, runId p, PtrTo ''-l'', PtrTo lev, NullPtr] in
      (case mpi e (MPI_Comm_spawn myexec (argv_strings argv) (nSlices p)) w of (r, w1) \<Rightarrow>
       if r \<noteq> MPI_SUCCESS then fatal w1
       else Returned (p\<lparr>mpiError := r, sliceIntercomm := spawn_comm e w\<rparr>, w1)))"

subsection \<open>The commands: invokeShutdown, invokeContinue, invokeSyncSlices, invokeProcess\<close>

text \<open>
  \<^verbatim>\<open>MPI_Bcast(buf, count, MPI_CHAR, MPI_ROOT, comm)\<close> sends the first \<open>count\<close> bytes of
  the buffer.
\<close>

definition bcast_chars :: "env \<Rightarrow> char list \<Rightarrow> cint \<Rightarrow> comm \<Rightarrow> world \<Rightarrow> cint \<times> world" where
  "bcast_chars e buf count c w = mpi e (MPI_Bcast (CharBuf (take (nat (sint count)) buf)) count c) w"

definition invokeShutdown :: "env \<Rightarrow> Pipeline \<times> world \<Rightarrow> (Pipeline \<times> world) outcome" where
  "invokeShutdown e st =
     (case st of (p, w) \<Rightarrow>
      (case new_array e w (bufferSize p) of None \<Rightarrow> Undefined | Some procCommand0 \<Rightarrow>
      (case strcpy procCommand0 ''SHUTDOWN'' of None \<Rightarrow> Undefined | Some procCommand \<Rightarrow>
      (case bcast_chars e procCommand (bufferSize p) (sliceIntercomm p) w of (r, w1) \<Rightarrow>
       if r \<noteq> MPI_SUCCESS then fatal w1
       else Returned (p\<lparr>mpiError := r\<rparr>, w1)))))"

definition invokeContinue :: "env \<Rightarrow> Pipeline \<times> world \<Rightarrow> (Pipeline \<times> world) outcome" where
  "invokeContinue e st =
     (case st of (p, w) \<Rightarrow>
      (case new_array e w (bufferSize p) of None \<Rightarrow> Undefined | Some procCommand0 \<Rightarrow>
      (case strcpy procCommand0 ''CONTINUE'' of None \<Rightarrow> Undefined | Some procCommand \<Rightarrow>
      (case bcast_chars e procCommand (bufferSize p) (sliceIntercomm p) w of (r, w1) \<Rightarrow>
       if r \<noteq> MPI_SUCCESS then fatal w1
       else Returned (p\<lparr>mpiError := r\<rparr>, w1)))))"

text \<open>\<^verbatim>\<open>pipelineLog.log(Log::INFO, boost::format(msg) % rank)\<close>, \<open>msg\<close> ending in \<^verbatim>\<open>%d \<close>.\<close>

definition log_rank :: "string \<Rightarrow> Pipeline \<Rightarrow> event" where
  "log_rank msg p = Log_INFO (msg @ show_int (sint (rank p)) @ '' '')"

definition invokeSyncSlices :: "env \<Rightarrow> Pipeline \<times> world \<Rightarrow> (Pipeline \<times> world) outcome" where
  "invokeSyncSlices e st =
     (case st of (p, w) \<Rightarrow>
      let w1 = w @ [log_rank ''Start invokeSyncSlices: rank '' p];
          w2 = w1 @ [log_rank ''InterSlice Communication Command Bcast rank '' p] in
      (case new_array e w2 (bufferSize p) of None \<Rightarrow> Undefined | Some procCommand0 \<Rightarrow>
      (case strcpy procCommand0 ''SYNC'' of None \<Rightarrow> Undefined | Some procCommand \<Rightarrow>
      (case bcast_chars e procCommand (bufferSize p) (sliceIntercomm p) w2 of (r1, w3) \<Rightarrow>
       if r1 \<noteq> MPI_SUCCESS then fatal w3 else
       let w4 = w3 @ [log_rank ''End Bcast rank '' p] in
      (case mpi e (MPI_Barrier (sliceIntercomm p)) w4 of (r2, w5) \<Rightarrow>
       if r2 \<noteq> MPI_SUCCESS then fatal w5 else
       let w6 = w5 @ [log_rank ''End invokeSyncSlices rank '' p] in Returned (p\<lparr>mpiError := r2\<rparr>, w6))))))"

text \<open>
  \<^verbatim>\<open>for (int k = 0; k < nSlices; k++) strcpy(processCommand[k], "PROCESS");\<close> over the
  rows of \<^verbatim>\<open>char processCommand[nSlices][bufferSize]\<close>; \<open>n\<close> is \<^verbatim>\<open>nSlices\<close>, which is
  not negative once the array exists. The rows are written and never read.
\<close>

function fill_rows :: "nat \<Rightarrow> nat \<Rightarrow> char list list \<Rightarrow> char list list option" where
  "fill_rows k n rows =
     (if k < n then
        (case strcpy (rows ! k) ''PROCESS'' of
           None \<Rightarrow> None
         | Some row \<Rightarrow> fill_rows (k + 1) n (rows[k := row]))
      else Some rows)"
  by pat_completeness auto
termination
  by (relation "measure (\<lambda>(k, n, rows). n - k)") auto

declare fill_rows.simps [simp del]

definition invokeProcess :: "env \<Rightarrow> cint \<Rightarrow> Pipeline \<times> world \<Rightarrow> (Pipeline \<times> world) outcome" where
  "invokeProcess e iStage st =
     (case st of (p, w) \<Rightarrow>
      if sint (nSlices p) < 0 then Undefined else
      (case new_array e w (bufferSize p) of None \<Rightarrow> Undefined | Some row0 \<Rightarrow>
      (case fill_rows 0 (nat (sint (nSlices p))) (replicate (nat (sint (nSlices p))) row0) of
         None \<Rightarrow> Undefined | Some processCommand \<Rightarrow>
      (case new_array e w (bufferSize p) of None \<Rightarrow> Undefined | Some procCommand0 \<Rightarrow>
      (case strcpy procCommand0 ''PROCESS'' of None \<Rightarrow> Undefined | Some procCommand \<Rightarrow>
      (case bcast_chars e procCommand (bufferSize p) (sliceIntercomm p) w of (r1, w1) \<Rightarrow>
       if r1 \<noteq> MPI_SUCCESS then fatal w1 else
      (case mpi e (MPI_Bcast (IntBuf [iStage]) 1 (sliceIntercomm p)) w1 of (r2, w2) \<Rightarrow>
       if r2 \<noteq> MPI_SUCCESS then fatal w2 else
      (case mpi e (MPI_Barrier (sliceIntercomm p)) w2 of (r3, w3) \<Rightarrow>
       if r3 \<noteq> MPI_SUCCESS then fatal w3
       else Returned (p\<lparr>mpiError := r3\<rparr>, w3)))))))))"

subsection \<open>Pipeline::shutdown and the accessors\<close>

text \<open>\<^verbatim>\<open>MPI_Finalize(); exit(0);\<close>\<close>

definition shutdown :: "Pipeline \<times> world \<Rightarrow> (Pipeline \<times> world) outcome" where
  "shutdown st = (case st of (p, w) \<Rightarrow> Exited 0 (w @ [MPI_Finalize]))"

definition setRunId :: "char_ptr \<Rightarrow> Pipeline \<Rightarrow> Pipeline" where
  "setRunId r p = p\<lparr>runId := r\<rparr>"

definition getRunId :: "Pipeline \<Rightarrow> char_ptr" where
  "getRunId p = runId p"

definition setPolicyName :: "char_ptr \<Rightarrow> Pipeline \<Rightarrow> Pipeline" where
  "setPolicyName n p = p\<lparr>policyName := n\<rparr>"

definition getPolicyName :: "Pipeline \<Rightarrow> char_ptr" where
  "getPolicyName p = policyName p"

subsection \<open>A process calling the methods one after the other\<close>

text \<open>
  A caller's sequence of method calls on one Pipeline object. Once a method has called
  \<^verbatim>\<open>exit\<close> the process is gone and the calls that follow in the caller's program are
  never made.
\<close>

datatype call =
    Initialize
  | StartSlices
  | InvokeShutdown
  | InvokeContinue
  | InvokeSyncSlices
  | InvokeProcess cint
  | Shutdown
  | SetRunId char_ptr
  | SetPolicyName char_ptr

fun step :: "env \<Rightarrow> call \<Rightarrow> Pipeline \<times> world \<Rightarrow> (Pipeline \<times> world) outcome" where
  "step e Initialize st = initialize e st"
| "step e StartSlices st = startSlices e st"
| "step e InvokeShutdown st = invokeShutdown e st"
| "step e InvokeContinue st = invokeContinue e st"
| "step e InvokeSyncSlices st = invokeSyncSlices e st"
| "step e (InvokeProcess iStage) st = invokeProcess e iStage st"
| "step e Shutdown st = shutdown st"
| "step e (SetRunId r) st = Returned (setRunId r (fst st), snd st)"
| "step e (SetPolicyName n) st = Returned (setPolicyName n (fst st), snd st)"

fun run :: "env \<Rightarrow> call list \<Rightarrow> (Pipeline \<times> world) outcome \<Rightarrow> (Pipeline \<times> world) outcome" where
  "run e [] out = out"
| "run e (c # cs) (Returned st) = run e cs (step e c st)"
| "run e (c # cs) (Exited code w) = Exited code w"
| "run e (c # cs) Undefined = Undefined"

subsection \<open>Vocabulary of the properties\<close>

text \<open>
  \<open>sent_buffer e w n name\<close>: a fresh array of \<open>n\<close> bytes after \<^verbatim>\<open>strcpy\<close> has put
  \<open>name\<close> into it: the name, a NUL, and from there on what the array held before.
  \<open>command_bcast\<close>: the broadcast of that array, whole, on the slice intercommunicator.
  \<open>mpi_calls\<close>: the history without the log lines.
\<close>

definition sent_buffer :: "env \<Rightarrow> world \<Rightarrow> cint \<Rightarrow> string \<Rightarrow> char list" where
  "sent_buffer e w n name = name @ [NUL] @ map (uninit e w) [length name + 1 ..< nat (sint n)]"

definition command_bcast :: "env \<Rightarrow> world \<Rightarrow> Pipeline \<Rightarrow> string \<Rightarrow> event" where
  "command_bcast e w p name =
     MPI_Bcast (CharBuf (sent_buffer e w (bufferSize p) name)) (bufferSize p) (sliceIntercomm p)"

fun is_log :: "event \<Rightarrow> bool" where
  "is_log (Log_INFO s) = True"
| "is_log ev = False"

definition mpi_calls :: "world \<Rightarrow> event list" where
  "mpi_calls w = filter (\<lambda>ev. \<not> is_log ev) w"

text \<open>
  \<open>succeeded e w new\<close>: the events \<open>new\<close>, made after the history \<open>w\<close>, are log lines and
  MPI calls that returned \<^verbatim>\<open>MPI_SUCCESS\<close>, none of them \<^verbatim>\<open>MPI_Finalize\<close>.
  \<open>ends_in_error e w new\<close>: such events, then one MPI call that returned an error, then
  \<^verbatim>\<open>MPI_Finalize\<close> and nothing more.
\<close>

fun succeeded :: "env \<Rightarrow> world \<Rightarrow> event list \<Rightarrow> bool" where
  "succeeded e w [] = True"
| "succeeded e w (ev # es) =
     ((is_log ev \<or> (ev \<noteq> MPI_Finalize \<and> mpi_ret e w ev = MPI_SUCCESS)) \<and> succeeded e (w @ [ev]) es)"

fun ends_in_error :: "env \<Rightarrow> world \<Rightarrow> event list \<Rightarrow> bool" where
  "ends_in_error e w [] = False"
| "ends_in_error e w [ev] = False"
| "ends_in_error e w [ev, fin] =
     (\<not> is_log ev \<and> ev \<noteq> MPI_Finalize \<and> mpi_ret e w ev \<noteq> MPI_SUCCESS \<and> fin = MPI_Finalize)"
| "ends_in_error e w (ev # es) =
     ((is_log ev \<or> (ev \<noteq> MPI_Finalize \<and> mpi_ret e w ev = MPI_SUCCESS)) \<and> ends_in_error e (w @ [ev]) es)"

text \<open>\<open>char_payloads\<close>: the character buffers broadcast in a history, in order.\<close>

fun char_payloads :: "world \<Rightarrow> char list list" where
  "char_payloads [] = []"
| "char_payloads (MPI_Bcast (CharBuf b) n c # es) = b # char_payloads es"
| "char_payloads (ev # es) = char_payloads es"

subsection \<open>Example environments and objects\<close>

text \<open>
  \<open>quiet\<close>: every MPI call succeeds, the universe has four slots, storage the program has
  not written holds the letter X. \<open>zeroed\<close>: the same with such storage holding NUL.
  \<open>failing k\<close>: the MPI call made when \<open>k\<close> events have happened fails with code 1.
  \<open>unreported\<close>: every MPI call succeeds, but the attribute \<^verbatim>\<open>MPI_UNIVERSE_SIZE\<close> is not
  set, so that \<^verbatim>\<open>MPI_Attr_get\<close> returns \<^verbatim>\<open>MPI_SUCCESS\<close> with \<^verbatim>\<open>flag\<close> false.
\<close>

definition quiet :: env where
  "quiet = \<lparr>mpi_ret = (\<lambda>w ev. MPI_SUCCESS), uninit = (\<lambda>w i. CHR ''X''), world_rank = 0,
             world_size = 1, universe_attr = Some 4, spawn_comm = (\<lambda>w. 7), log_threshold = 3,
             lev_text = show_int\<rparr>"

definition zeroed :: env where
  "zeroed = quiet\<lparr>uninit := (\<lambda>w i. NUL)\<rparr>"

definition unreported :: env where
  "unreported = quiet\<lparr>universe_attr := None\<rparr>"

definition failing :: "nat \<Rightarrow> env" where
  "failing k = quiet\<lparr>mpi_ret := (\<lambda>w ev. if length w = k then 1 else MPI_SUCCESS)\<rparr>"

text \<open>
  \<open>fresh\<close>: an object whose names have been set, before \<^verbatim>\<open>initialize\<close>. \<open>ready\<close>: one
  after \<^verbatim>\<open>startSlices\<close>.
\<close>

definition fresh :: Pipeline where
  "fresh = \<lparr>mpiError = 0, rank = 0, size_world = 0, universeSize = 0, nSlices = 0,
             bufferSize = 0, runId = PtrTo ''run1'', policyName = PtrTo ''policy.paf'',
             sliceIntercomm = 0\<rparr>"

definition ready :: Pipeline where
  "ready = \<lparr>mpiError = 0, rank = 0, size_world = 1, universeSize = 4, nSlices = 3,
             bufferSize = 256, runId = PtrTo ''run1'', policyName = PtrTo ''policy.paf'',
             sliceIntercomm = 7\<rparr>"

section \<open>Properties\<close>

subsection \<open>Fleet size\<close>

lemma sint_minus_one:
  fixes u :: cint
  assumes "sint u \<noteq> - (2 ^ 31)"
  shows "sint (u - 1) = sint u - 1"
proof -
  have "sint u < 2 ^ 31" "- (2 ^ 31) \<le> sint u"
    using sint_lt [of u] sint_ge [of u] by simp_all
  with assms show ?thesis
    by (simp add: sint_word_diff signed_take_bit_int_eq_self)
qed

lemma initializeMPI_Returned:
  assumes "initializeMPI e (p, w) = Returned (p', w')"
  shows "\<exists>u. universe_attr e = Some u \<and> sint u \<noteq> - (2 ^ 31) \<and> universeSize p' = u
           \<and> nSlices p' = u - 1"
  using assms
  by (auto simp: initializeMPI_def mpi_def fatal_def split: if_splits option.splits)

lemma initializeMPI_returns:
  assumes "succeeded e w [MPI_Init, MPI_Comm_rank, MPI_Comm_size, MPI_Attr_get]"
    and "universe_attr e = Some u" and "sint u \<noteq> - (2 ^ 31)"
  shows "initializeMPI e (p, w) =
           Returned (p\<lparr>mpiError := MPI_SUCCESS, rank := world_rank e, size_world := world_size e,
                       universeSize := u, nSlices := u - 1\<rparr>,
                     w @ [MPI_Init, MPI_Comm_rank, MPI_Comm_size, MPI_Attr_get])"
  using assms by (simp add: initializeMPI_def mpi_def)

text \<open>
  C2. Whenever \<^verbatim>\<open>initializeMPI\<close> returns, the universe size it stored is the one the
  attribute reported and the fleet size \<^verbatim>\<open>nSlices\<close> is that size minus one, as integers;
  so a universe of at least one slot gives a fleet size of at least zero. And it does
  return, with that fleet size, whenever its four MPI calls succeed and the attribute
  reports a universe of at least one slot.
\<close>

theorem fleet_size_universe_minus_one:
  "(initializeMPI e (p, w) = Returned (p', w') \<longrightarrow>
      universe_attr e = Some (universeSize p')
      \<and> sint (nSlices p') = sint (universeSize p') - 1
      \<and> (1 \<le> sint (universeSize p') \<longrightarrow> 0 \<le> sint (nSlices p')))
   \<and> (succeeded e w [MPI_Init, MPI_Comm_rank, MPI_Comm_size, MPI_Attr_get]
        \<and> universe_attr e = Some u \<and> 1 \<le> sint u \<longrightarrow>
      (\<exists>q. initializeMPI e (p, w) =
               Returned (q, w @ [MPI_Init, MPI_Comm_rank, MPI_Comm_size, MPI_Attr_get])
           \<and> universeSize q = u \<and> sint (nSlices q) = sint u - 1 \<and> 0 \<le> sint (nSlices q)))"
proof (intro conjI impI)
  assume r: "initializeMPI e (p, w) = Returned (p', w')"
  from initializeMPI_Returned [OF r] obtain v where
    v: "universe_attr e = Some v" "sint v \<noteq> - (2 ^ 31)" "universeSize p' = v" "nSlices p' = v - 1"
    by blast
  have s: "sint (v - 1) = sint v - 1"
    using v(2) by (rule sint_minus_one)
  show "universe_attr e = Some (universeSize p')"
    using v by simp
  show "sint (nSlices p') = sint (universeSize p') - 1"
    using v s by simp
  show "0 \<le> sint (nSlices p')" if "1 \<le> sint (universeSize p')"
    using v s that by simp
next
  assume a: "succeeded e w [MPI_Init, MPI_Comm_rank, MPI_Comm_size, MPI_Attr_get]
               \<and> universe_attr e = Some u \<and> 1 \<le> sint u"
  then have n: "sint u \<noteq> - (2 ^ 31)" by simp
  have s: "sint (u - 1) = sint u - 1"
    using n by (rule sint_minus_one)
  from a n initializeMPI_returns [of e w u p] s
  show "\<exists>q. initializeMPI e (p, w) =
               Returned (q, w @ [MPI_Init, MPI_Comm_rank, MPI_Comm_size, MPI_Attr_get])
           \<and> universeSize q = u \<and> sint (nSlices q) = sint u - 1 \<and> 0 \<le> sint (nSlices q)"
    by simp
qed

theorem fleet_size_universe_minus_one_witness:
  "initializeMPI quiet (fresh, []) =
     Returned (fresh\<lparr>size_world := 1, universeSize := 4, nSlices := 3\<rparr>,
               [MPI_Init, MPI_Comm_rank, MPI_Comm_size, MPI_Attr_get])
   \<and> succeeded quiet [] [MPI_Init, MPI_Comm_rank, MPI_Comm_size, MPI_Attr_get]
   \<and> universe_attr quiet = Some 4
   \<and> sint (nSlices (fresh\<lparr>size_world := 1, universeSize := 4, nSlices := 3\<rparr>)) = 3
   \<and> (1::int) \<le> sint (universeSize (fresh\<lparr>size_world := 1, universeSize := 4, nSlices := 3\<rparr>))"
proof -
  have ok: "succeeded quiet [] [MPI_Init, MPI_Comm_rank, MPI_Comm_size, MPI_Attr_get]"
    by (simp add: quiet_def)
  have u: "universe_attr quiet = Some 4"
    by (simp add: quiet_def)
  have run: "initializeMPI quiet (fresh, []) =
     Returned (fresh\<lparr>size_world := 1, universeSize := 4, nSlices := 3\<rparr>,
               [MPI_Init, MPI_Comm_rank, MPI_Comm_size, MPI_Attr_get])"
    by (simp add: initializeMPI_def mpi_def quiet_def fresh_def MPI_SUCCESS_def)
  from fleet_size_universe_minus_one
    [of quiet fresh "[]" "fresh\<lparr>size_world := 1, universeSize := 4, nSlices := 3\<rparr>"
        "[MPI_Init, MPI_Comm_rank, MPI_Comm_size, MPI_Attr_get]" 4]
    run ok u
  show ?thesis
    by simp
qed

subsection \<open>What each command does\<close>

lemma length_sent_buffer:
  "int (length name) < sint n \<Longrightarrow> length (sent_buffer e w n name) = nat (sint n)"
  by (auto simp: sent_buffer_def)

lemma c_str_sent_buffer:
  "NUL \<notin> set name \<Longrightarrow> c_str (sent_buffer e w n name) = name"
  by (auto simp: c_str_def sent_buffer_def takeWhile_tail)

lemma take_sent_buffer:
  "take (length name + 1) (sent_buffer e w n name) = name @ [NUL]"
  by (simp add: sent_buffer_def)

lemma buffer_cases:
  "(case new_array e w n of None \<Rightarrow> Undefined | Some b0 \<Rightarrow>
      (case strcpy b0 name of None \<Rightarrow> Undefined | Some b \<Rightarrow> f b)) =
   (if int (length name) < sint n then f (sent_buffer e w n name) else Undefined)"
  by (auto simp: new_array_def strcpy_def sent_buffer_def drop_map)

lemma bcast_sent_buffer:
  "int (length name) < sint (bufferSize p) \<Longrightarrow>
   bcast_chars e (sent_buffer e w (bufferSize p) name) (bufferSize p) (sliceIntercomm p) w' =
     mpi e (command_bcast e w p name) w'"
  by (simp add: bcast_chars_def command_bcast_def length_sent_buffer)

lemma invokeShutdown_eq:
  "invokeShutdown e (p, w) =
     (if 8 < sint (bufferSize p) then
        (if mpi_ret e w (command_bcast e w p ''SHUTDOWN'') \<noteq> MPI_SUCCESS
         then Exited 1 (w @ [command_bcast e w p ''SHUTDOWN'', MPI_Finalize])
         else Returned (p\<lparr>mpiError := MPI_SUCCESS\<rparr>, w @ [command_bcast e w p ''SHUTDOWN'']))
      else Undefined)"
  by (simp add: invokeShutdown_def buffer_cases bcast_sent_buffer mpi_def fatal_def)

lemma invokeContinue_eq:
  "invokeContinue e (p, w) =
     (if 8 < sint (bufferSize p) then
        (if mpi_ret e w (command_bcast e w p ''CONTINUE'') \<noteq> MPI_SUCCESS
         then Exited 1 (w @ [command_bcast e w p ''CONTINUE'', MPI_Finalize])
         else Returned (p\<lparr>mpiError := MPI_SUCCESS\<rparr>, w @ [command_bcast e w p ''CONTINUE'']))
      else Undefined)"
  by (simp add: invokeContinue_def buffer_cases bcast_sent_buffer mpi_def fatal_def)

text \<open>The events of a \<^verbatim>\<open>invokeSyncSlices\<close> that runs to its end, in order.\<close>

lemma invokeSyncSlices_eq:
  fixes e p w
  defines "w2 \<equiv> w @ [log_rank ''Start invokeSyncSlices: rank '' p,
                      log_rank ''InterSlice Communication Command Bcast rank '' p]"
  defines "w4 \<equiv> w2 @ [command_bcast e w2 p ''SYNC'', log_rank ''End Bcast rank '' p]"
  shows "invokeSyncSlices e (p, w) =
     (if 4 < sint (bufferSize p) then
        (if mpi_ret e w2 (command_bcast e w2 p ''SYNC'') \<noteq> MPI_SUCCESS
         then Exited 1 (w2 @ [command_bcast e w2 p ''SYNC'', MPI_Finalize])
         else if mpi_ret e w4 (MPI_Barrier (sliceIntercomm p)) \<noteq> MPI_SUCCESS
         then Exited 1 (w4 @ [MPI_Barrier (sliceIntercomm p), MPI_Finalize])
         else Returned (p\<lparr>mpiError := MPI_SUCCESS\<rparr>,
                        w4 @ [MPI_Barrier (sliceIntercomm p),
                              log_rank ''End invokeSyncSlices rank '' p]))
      else Undefined)"
  unfolding w4_def w2_def
  by (simp add: invokeSyncSlices_def buffer_cases bcast_sent_buffer mpi_def fatal_def Let_def)

lemma length_strcpy: "strcpy dst src = Some b \<Longrightarrow> length b = length dst"
  by (auto simp: strcpy_def split: if_splits)

lemma fill_rows_Some:
  "n \<le> length rows \<Longrightarrow> \<forall>r \<in> set rows. 8 \<le> length r \<Longrightarrow>
   \<exists>rows'. fill_rows k n rows = Some rows'"
proof (induction k n rows rule: fill_rows.induct)
  case (1 k n rows)
  show ?case
  proof (cases "k < n")
    case False
    then show ?thesis by (simp add: fill_rows.simps)
  next
    case True
    then have "8 \<le> length (rows ! k)" using "1.prems" by simp
    then obtain row where row: "strcpy (rows ! k) ''PROCESS'' = Some row"
      by (auto simp: strcpy_def)
    have "\<forall>r \<in> set (rows[k := row]). 8 \<le> length r"
      using "1.prems" length_strcpy [OF row] \<open>8 \<le> length (rows ! k)\<close>
      by (auto dest!: set_update_subset_insert [THEN subsetD])
    moreover have "n \<le> length (rows[k := row])"
      using "1.prems" by simp
    ultimately obtain rows' where "fill_rows (k + 1) n (rows[k := row]) = Some rows'"
      using "1.IH" [OF True row] by blast
    then show ?thesis
      using True row by (subst fill_rows.simps) simp
  qed
qed

lemma fill_rows_fresh:
  "int (length ''PROCESS'') < sint b \<Longrightarrow>
   \<exists>rows'. fill_rows 0 n (replicate n (map (uninit e w) [0..<nat (sint b)])) = Some rows'"
  by (rule fill_rows_Some) auto

lemma invokeProcess_eq:
  fixes e p w iStage
  defines "b1 \<equiv> command_bcast e w p ''PROCESS''"
  defines "b2 \<equiv> MPI_Bcast (IntBuf [iStage]) 1 (sliceIntercomm p)"
  defines "b3 \<equiv> MPI_Barrier (sliceIntercomm p)"
  shows "invokeProcess e iStage (p, w) =
     (if 0 \<le> sint (nSlices p) \<and> 7 < sint (bufferSize p) then
        (if mpi_ret e w b1 \<noteq> MPI_SUCCESS then Exited 1 (w @ [b1, MPI_Finalize])
         else if mpi_ret e (w @ [b1]) b2 \<noteq> MPI_SUCCESS then Exited 1 (w @ [b1, b2, MPI_Finalize])
         else if mpi_ret e (w @ [b1, b2]) b3 \<noteq> MPI_SUCCESS
         then Exited 1 (w @ [b1, b2, b3, MPI_Finalize])
         else Returned (p\<lparr>mpiError := MPI_SUCCESS\<rparr>, w @ [b1, b2, b3]))
      else Undefined)"
proof (cases "0 \<le> sint (nSlices p) \<and> 7 < sint (bufferSize p)")
  case False
  then show ?thesis
    by (auto simp: invokeProcess_def new_array_def strcpy_def split: option.splits)
next
  case True
  then have b: "int (length ''PROCESS'') < sint (bufferSize p)" by simp
  then have na: "new_array e w (bufferSize p) = Some (map (uninit e w) [0..<nat (sint (bufferSize p))])"
    by (simp add: new_array_def)
  from fill_rows_fresh [OF b] obtain rows' where
    rows: "fill_rows 0 (nat (sint (nSlices p)))
             (replicate (nat (sint (nSlices p))) (map (uninit e w) [0..<nat (sint (bufferSize p))]))
           = Some rows'"
    by blast
  have sc: "strcpy (map (uninit e w) [0..<nat (sint (bufferSize p))]) ''PROCESS''
            = Some (sent_buffer e w (bufferSize p) ''PROCESS'')"
    using b by (auto simp: strcpy_def sent_buffer_def drop_map)
  show ?thesis
    unfolding b1_def b2_def b3_def using True b
    by (simp add: invokeProcess_def na rows sc bcast_sent_buffer mpi_def fatal_def)
qed

lemma quiet_buffer:
  "sent_buffer quiet w 256 name = name @ [NUL] @ replicate (255 - length name) (CHR ''X'')"
  by (simp add: sent_buffer_def quiet_def map_replicate_const)

lemma failing_buffer:
  "sent_buffer (failing k) w 256 name = name @ [NUL] @ replicate (255 - length name) (CHR ''X'')"
  by (simp add: sent_buffer_def failing_def quiet_def map_replicate_const)

lemma zeroed_buffer:
  "sent_buffer zeroed w 256 name = name @ [NUL] @ replicate (255 - length name) NUL"
  by (simp add: sent_buffer_def zeroed_def quiet_def map_replicate_const)

lemma quiet_ret: "mpi_ret quiet v ev = MPI_SUCCESS"
  by (simp add: quiet_def)

lemma failing_ret: "mpi_ret (failing k) v ev = (if length v = k then 1 else MPI_SUCCESS)"
  by (simp add: failing_def quiet_def)

lemma ready_success: "ready\<lparr>mpiError := MPI_SUCCESS\<rparr> = ready"
  by (simp add: ready_def MPI_SUCCESS_def)

text \<open>
  C1. For any stage index: whenever \<^verbatim>\<open>invokeProcess\<close> returns it has added exactly three
  events to the history, all on the slice intercommunicator and in this order: the
  broadcast of the command buffer, which reads as the C string PROCESS; the broadcast of
  \<open>iStage\<close> alone as one \<^verbatim>\<open>int\<close>; the barrier, which had returned \<^verbatim>\<open>MPI_SUCCESS\<close>. And
  on every object whose fleet size is not negative and whose buffer holds the name, it
  does make these calls, one after the other, as long as each succeeds, and returns after
  the third; the first that fails is followed by \<^verbatim>\<open>MPI_Finalize\<close> and \<^verbatim>\<open>exit(1)\<close> with
  the calls after it left out.
\<close>

theorem invokeProcess_three_collectives:
  fixes e p w iStage
  defines "b1 \<equiv> command_bcast e w p ''PROCESS''"
  defines "b2 \<equiv> MPI_Bcast (IntBuf [iStage]) 1 (sliceIntercomm p)"
  defines "b3 \<equiv> MPI_Barrier (sliceIntercomm p)"
  shows "(invokeProcess e iStage (p, w) = Returned (p', w') \<longrightarrow>
            w' = w @ [b1, b2, b3]
          \<and> c_str (sent_buffer e w (bufferSize p) ''PROCESS'') = ''PROCESS''
          \<and> mpi_ret e (w @ [b1, b2]) b3 = MPI_SUCCESS)
       \<and> (0 \<le> sint (nSlices p) \<and> 7 < sint (bufferSize p) \<longrightarrow>
            invokeProcess e iStage (p, w) =
              (if mpi_ret e w b1 \<noteq> MPI_SUCCESS then Exited 1 (w @ [b1, MPI_Finalize])
               else if mpi_ret e (w @ [b1]) b2 \<noteq> MPI_SUCCESS
               then Exited 1 (w @ [b1, b2, MPI_Finalize])
               else if mpi_ret e (w @ [b1, b2]) b3 \<noteq> MPI_SUCCESS
               then Exited 1 (w @ [b1, b2, b3, MPI_Finalize])
               else Returned (p\<lparr>mpiError := MPI_SUCCESS\<rparr>, w @ [b1, b2, b3])))"
  unfolding b1_def b2_def b3_def
  by (auto simp: invokeProcess_eq c_str_sent_buffer NUL_def split: if_splits)

theorem invokeProcess_three_collectives_witness:
  "0 \<le> sint (nSlices ready) \<and> 7 < sint (bufferSize ready)
   \<and> invokeProcess quiet 2 (ready, []) =
       Returned (ready, [MPI_Bcast (CharBuf (''PROCESS'' @ [NUL] @ replicate 248 (CHR ''X''))) 256 7,
                         MPI_Bcast (IntBuf [2]) 1 7, MPI_Barrier 7])
   \<and> c_str (''PROCESS'' @ [NUL] @ replicate 248 (CHR ''X'')) = ''PROCESS''
   \<and> invokeProcess (failing 2) 5 (ready, []) =
       Exited 1 [MPI_Bcast (CharBuf (''PROCESS'' @ [NUL] @ replicate 248 (CHR ''X''))) 256 7,
                 MPI_Bcast (IntBuf [5]) 1 7, MPI_Barrier 7, MPI_Finalize]"
proof -
  have h: "0 \<le> sint (nSlices ready) \<and> 7 < sint (bufferSize ready)"
    by (simp add: ready_def)
  note q = quiet_ret and f = failing_ret and r = ready_success
  have c: "command_bcast quiet [] ready ''PROCESS'' =
             MPI_Bcast (CharBuf (''PROCESS'' @ [NUL] @ replicate 248 (CHR ''X''))) 256 7"
          "command_bcast (failing 2) [] ready ''PROCESS'' =
             MPI_Bcast (CharBuf (''PROCESS'' @ [NUL] @ replicate 248 (CHR ''X''))) 256 7"
          "sliceIntercomm ready = 7"
    by (simp_all add: command_bcast_def ready_def quiet_buffer failing_buffer)
  from invokeProcess_three_collectives [of quiet 2 ready "[]" ready "[]", THEN conjunct2, rule_format, OF h]
  have 1: "invokeProcess quiet 2 (ready, []) =
       Returned (ready, [MPI_Bcast (CharBuf (''PROCESS'' @ [NUL] @ replicate 248 (CHR ''X''))) 256 7,
                         MPI_Bcast (IntBuf [2]) 1 7, MPI_Barrier 7])"
    by (simp add: q r c)
  from invokeProcess_three_collectives [of "failing 2" 5 ready "[]" ready "[]", THEN conjunct2, rule_format, OF h]
  have 2: "invokeProcess (failing 2) 5 (ready, []) =
       Exited 1 [MPI_Bcast (CharBuf (''PROCESS'' @ [NUL] @ replicate 248 (CHR ''X''))) 256 7,
                 MPI_Bcast (IntBuf [5]) 1 7, MPI_Barrier 7, MPI_Finalize]"
    by (simp add: f c MPI_SUCCESS_def)
  from invokeProcess_three_collectives
    [of quiet 2 ready "[]" ready
        "[MPI_Bcast (CharBuf (''PROCESS'' @ [NUL] @ replicate 248 (CHR ''X''))) 256 7,
          MPI_Bcast (IntBuf [2]) 1 7, MPI_Barrier 7]", THEN conjunct1, rule_format, OF 1]
  have 3: "c_str (''PROCESS'' @ [NUL] @ replicate 248 (CHR ''X'')) = ''PROCESS''"
    by (simp add: ready_def quiet_buffer)
  from h 1 2 3 show ?thesis by blast
qed


text \<open>
  C3. Whenever \<^verbatim>\<open>invokeSyncSlices\<close> returns, the MPI calls it has made are exactly two, in
  this order: the broadcast of the command buffer, which reads as the C string SYNC, and
  one barrier; the other events it adds are its four log lines. And on every object whose
  buffer holds the name it does make the broadcast, and the barrier when the broadcast
  succeeded, and returns when both did; a call that fails is followed by
  \<^verbatim>\<open>MPI_Finalize\<close> and \<^verbatim>\<open>exit(1)\<close>.
\<close>

theorem invokeSyncSlices_two_collectives:
  fixes e p w
  defines "w2 \<equiv> w @ [log_rank ''Start invokeSyncSlices: rank '' p,
                      log_rank ''InterSlice Communication Command Bcast rank '' p]"
  defines "w4 \<equiv> w2 @ [command_bcast e w2 p ''SYNC'', log_rank ''End Bcast rank '' p]"
  shows "(invokeSyncSlices e (p, w) = Returned (p', w') \<longrightarrow>
            w' = w2 @ [command_bcast e w2 p ''SYNC'', log_rank ''End Bcast rank '' p,
                       MPI_Barrier (sliceIntercomm p), log_rank ''End invokeSyncSlices rank '' p]
          \<and> mpi_calls w' = mpi_calls w @ [command_bcast e w2 p ''SYNC'', MPI_Barrier (sliceIntercomm p)]
          \<and> c_str (sent_buffer e w2 (bufferSize p) ''SYNC'') = ''SYNC'')
       \<and> (4 < sint (bufferSize p) \<longrightarrow>
            invokeSyncSlices e (p, w) =
              (if mpi_ret e w2 (command_bcast e w2 p ''SYNC'') \<noteq> MPI_SUCCESS
               then Exited 1 (w2 @ [command_bcast e w2 p ''SYNC'', MPI_Finalize])
               else if mpi_ret e w4 (MPI_Barrier (sliceIntercomm p)) \<noteq> MPI_SUCCESS
               then Exited 1 (w4 @ [MPI_Barrier (sliceIntercomm p), MPI_Finalize])
               else Returned (p\<lparr>mpiError := MPI_SUCCESS\<rparr>,
                              w4 @ [MPI_Barrier (sliceIntercomm p),
                                    log_rank ''End invokeSyncSlices rank '' p])))"
  unfolding w4_def w2_def
  by (auto simp: invokeSyncSlices_eq c_str_sent_buffer NUL_def mpi_calls_def log_rank_def
        command_bcast_def split: if_splits)

theorem invokeSyncSlices_two_collectives_witness:
  "4 < sint (bufferSize ready)
   \<and> invokeSyncSlices quiet (ready, []) =
     Returned (ready, [Log_INFO ''Start invokeSyncSlices: rank 0 '',
                       Log_INFO ''InterSlice Communication Command Bcast rank 0 '',
                       MPI_Bcast (CharBuf (''SYNC'' @ [NUL] @ replicate 251 (CHR ''X''))) 256 7,
                       Log_INFO ''End Bcast rank 0 '',
                       MPI_Barrier 7,
                       Log_INFO ''End invokeSyncSlices rank 0 ''])
   \<and> mpi_calls [Log_INFO ''Start invokeSyncSlices: rank 0 '',
                       Log_INFO ''InterSlice Communication Command Bcast rank 0 '',
                       MPI_Bcast (CharBuf (''SYNC'' @ [NUL] @ replicate 251 (CHR ''X''))) 256 7,
                       Log_INFO ''End Bcast rank 0 '',
                       MPI_Barrier 7,
                       Log_INFO ''End invokeSyncSlices rank 0 '']
     = [MPI_Bcast (CharBuf (''SYNC'' @ [NUL] @ replicate 251 (CHR ''X''))) 256 7, MPI_Barrier 7]
   \<and> invokeSyncSlices (failing 4) (ready, []) =
     Exited 1 [Log_INFO ''Start invokeSyncSlices: rank 0 '',
               Log_INFO ''InterSlice Communication Command Bcast rank 0 '',
               MPI_Bcast (CharBuf (''SYNC'' @ [NUL] @ replicate 251 (CHR ''X''))) 256 7,
               Log_INFO ''End Bcast rank 0 '',
               MPI_Barrier 7, MPI_Finalize]"
proof -
  have h: "4 < sint (bufferSize ready)"
    by (simp add: ready_def)
  have z: "log_rank msg ready = Log_INFO (msg @ ''0 '')" for msg
    by (simp add: log_rank_def ready_def show_int_def show_nat.simps)
  have c: "command_bcast quiet v ready ''SYNC'' =
             MPI_Bcast (CharBuf (''SYNC'' @ [NUL] @ replicate 251 (CHR ''X''))) 256 7"
          "command_bcast (failing 4) v ready ''SYNC'' =
             MPI_Bcast (CharBuf (''SYNC'' @ [NUL] @ replicate 251 (CHR ''X''))) 256 7"
          "sliceIntercomm ready = 7" for v
    by (simp_all add: command_bcast_def ready_def quiet_buffer failing_buffer)
  note t1 = invokeSyncSlices_two_collectives [of quiet ready "[]"
      ready "[Log_INFO ''Start invokeSyncSlices: rank 0 '',
                       Log_INFO ''InterSlice Communication Command Bcast rank 0 '',
                       MPI_Bcast (CharBuf (''SYNC'' @ [NUL] @ replicate 251 (CHR ''X''))) 256 7,
                       Log_INFO ''End Bcast rank 0 '',
                       MPI_Barrier 7,
                       Log_INFO ''End invokeSyncSlices rank 0 '']"]
  from t1 [THEN conjunct2, rule_format, OF h]
  have 1: "invokeSyncSlices quiet (ready, []) =
     Returned (ready, [Log_INFO ''Start invokeSyncSlices: rank 0 '',
                       Log_INFO ''InterSlice Communication Command Bcast rank 0 '',
                       MPI_Bcast (CharBuf (''SYNC'' @ [NUL] @ replicate 251 (CHR ''X''))) 256 7,
                       Log_INFO ''End Bcast rank 0 '',
                       MPI_Barrier 7,
                       Log_INFO ''End invokeSyncSlices rank 0 ''])"
    by (simp add: quiet_ret ready_success c z)
  from t1 [THEN conjunct1, rule_format, OF 1]
  have 2: "mpi_calls [Log_INFO ''Start invokeSyncSlices: rank 0 '',
                       Log_INFO ''InterSlice Communication Command Bcast rank 0 '',
                       MPI_Bcast (CharBuf (''SYNC'' @ [NUL] @ replicate 251 (CHR ''X''))) 256 7,
                       Log_INFO ''End Bcast rank 0 '',
                       MPI_Barrier 7,
                       Log_INFO ''End invokeSyncSlices rank 0 '']
     = [MPI_Bcast (CharBuf (''SYNC'' @ [NUL] @ replicate 251 (CHR ''X''))) 256 7, MPI_Barrier 7]"
    by (simp add: c z mpi_calls_def)
  from invokeSyncSlices_two_collectives [of "failing 4" ready "[]" ready "[]",
      THEN conjunct2, rule_format, OF h]
  have 3: "invokeSyncSlices (failing 4) (ready, []) =
     Exited 1 [Log_INFO ''Start invokeSyncSlices: rank 0 '',
               Log_INFO ''InterSlice Communication Command Bcast rank 0 '',
               MPI_Bcast (CharBuf (''SYNC'' @ [NUL] @ replicate 251 (CHR ''X''))) 256 7,
               Log_INFO ''End Bcast rank 0 '',
               MPI_Barrier 7, MPI_Finalize]"
    by (simp add: failing_ret c z MPI_SUCCESS_def)
  from h 1 2 3 show ?thesis by blast
qed

text \<open>
  C4. Whenever \<^verbatim>\<open>invokeContinue\<close> returns, it has added exactly one event to the
  history, the broadcast of the command buffer, which reads as the C string CONTINUE: no
  barrier and nothing else follows, and the object is as before but for \<^verbatim>\<open>mpiError\<close>,
  which holds what the broadcast returned. And on every object whose buffer holds the
  name it does make that one broadcast, and returns when it succeeded; when it failed the
  only thing that follows is \<^verbatim>\<open>MPI_Finalize\<close> and \<^verbatim>\<open>exit(1)\<close>.
\<close>

theorem invokeContinue_one_broadcast:
  "(invokeContinue e (p, w) = Returned (p', w') \<longrightarrow>
        w' = w @ [command_bcast e w p ''CONTINUE'']
      \<and> c_str (sent_buffer e w (bufferSize p) ''CONTINUE'') = ''CONTINUE''
      \<and> p' = p\<lparr>mpiError := mpi_ret e w (command_bcast e w p ''CONTINUE'')\<rparr>)
   \<and> (8 < sint (bufferSize p) \<longrightarrow>
        invokeContinue e (p, w) =
          (if mpi_ret e w (command_bcast e w p ''CONTINUE'') \<noteq> MPI_SUCCESS
           then Exited 1 (w @ [command_bcast e w p ''CONTINUE'', MPI_Finalize])
           else Returned (p\<lparr>mpiError := MPI_SUCCESS\<rparr>, w @ [command_bcast e w p ''CONTINUE''])))"
  by (auto simp: invokeContinue_eq c_str_sent_buffer NUL_def split: if_splits)

theorem invokeContinue_one_broadcast_witness:
  "8 < sint (bufferSize ready)
   \<and> invokeContinue quiet (ready, []) =
     Returned (ready, [MPI_Bcast (CharBuf (''CONTINUE'' @ [NUL] @ replicate 247 (CHR ''X''))) 256 7])
   \<and> c_str (''CONTINUE'' @ [NUL] @ replicate 247 (CHR ''X'')) = ''CONTINUE''
   \<and> invokeContinue (failing 0) (ready, []) =
     Exited 1 [MPI_Bcast (CharBuf (''CONTINUE'' @ [NUL] @ replicate 247 (CHR ''X''))) 256 7,
               MPI_Finalize]"
proof -
  have h: "8 < sint (bufferSize ready)"
    by (simp add: ready_def)
  have c: "command_bcast quiet v ready ''CONTINUE'' =
             MPI_Bcast (CharBuf (''CONTINUE'' @ [NUL] @ replicate 247 (CHR ''X''))) 256 7"
          "command_bcast (failing 0) v ready ''CONTINUE'' =
             MPI_Bcast (CharBuf (''CONTINUE'' @ [NUL] @ replicate 247 (CHR ''X''))) 256 7" for v
    by (simp_all add: command_bcast_def ready_def quiet_buffer failing_buffer)
  from invokeContinue_one_broadcast [of quiet ready "[]" ready "[]", THEN conjunct2, rule_format, OF h]
  have 1: "invokeContinue quiet (ready, []) =
     Returned (ready, [MPI_Bcast (CharBuf (''CONTINUE'' @ [NUL] @ replicate 247 (CHR ''X''))) 256 7])"
    by (simp add: quiet_ret ready_success c)
  from invokeContinue_one_broadcast [of "failing 0" ready "[]" ready "[]", THEN conjunct2, rule_format, OF h]
  have 2: "invokeContinue (failing 0) (ready, []) =
     Exited 1 [MPI_Bcast (CharBuf (''CONTINUE'' @ [NUL] @ replicate 247 (CHR ''X''))) 256 7,
               MPI_Finalize]"
    by (simp add: failing_ret c MPI_SUCCESS_def)
  from invokeContinue_one_broadcast
    [of quiet ready "[]" ready
        "[MPI_Bcast (CharBuf (''CONTINUE'' @ [NUL] @ replicate 247 (CHR ''X''))) 256 7]",
     THEN conjunct1, rule_format, OF 1]
  have 3: "c_str (''CONTINUE'' @ [NUL] @ replicate 247 (CHR ''X'')) = ''CONTINUE''"
    by (simp add: ready_def quiet_buffer)
  from h 1 2 3 show ?thesis by blast
qed

subsection \<open>What the commands leave alone\<close>

text \<open>
  C10. From any object, when \<^verbatim>\<open>invokeProcess\<close>, \<^verbatim>\<open>invokeSyncSlices\<close>,
  \<^verbatim>\<open>invokeContinue\<close> or \<^verbatim>\<open>invokeShutdown\<close> returns, \<^verbatim>\<open>universeSize\<close>, \<^verbatim>\<open>nSlices\<close>,
  \<^verbatim>\<open>bufferSize\<close>, the run identifier and the policy name are what they were: the object
  differs from the one before in \<^verbatim>\<open>mpiError\<close> at most.
\<close>

theorem invoke_frame:
  assumes "f = invokeProcess e iStage \<or> f = invokeSyncSlices e \<or> f = invokeContinue e
           \<or> f = invokeShutdown e"
    and "f (p, w) = Returned (p', w')"
  shows "universeSize p' = universeSize p \<and> nSlices p' = nSlices p
       \<and> bufferSize p' = bufferSize p \<and> runId p' = runId p \<and> policyName p' = policyName p
       \<and> getRunId p' = getRunId p \<and> getPolicyName p' = getPolicyName p
       \<and> p' = p\<lparr>mpiError := mpiError p'\<rparr>"
  using assms
  by (auto simp: invokeProcess_eq invokeSyncSlices_eq invokeContinue_eq invokeShutdown_eq
        getRunId_def getPolicyName_def split: if_splits)

theorem invoke_frame_witness:
  "invokeShutdown quiet (ready\<lparr>mpiError := 5\<rparr>, []) =
     Returned (ready, [command_bcast quiet [] ready ''SHUTDOWN''])
   \<and> universeSize ready = universeSize (ready\<lparr>mpiError := 5\<rparr>)
   \<and> runId ready = runId (ready\<lparr>mpiError := 5\<rparr>)
   \<and> ready = ready\<lparr>mpiError := 5, mpiError := mpiError ready\<rparr>"
proof -
  have r: "invokeShutdown quiet (ready\<lparr>mpiError := 5\<rparr>, []) =
     Returned (ready, [command_bcast quiet [] ready ''SHUTDOWN''])"
    by (simp add: invokeShutdown_eq) (simp add: ready_def quiet_def MPI_SUCCESS_def command_bcast_def)
  from invoke_frame [of "invokeShutdown quiet" quiet 0 "ready\<lparr>mpiError := 5\<rparr>" "[]" ready, OF _ r] r
  show ?thesis
    by simp
qed

subsection \<open>Errors and exit\<close>

lemma run_Exited: "run e cs (Exited code w) = Exited code w"
  by (cases cs) simp_all

lemma is_log_simps [simp]:
  "\<not> is_log (command_bcast e w p name)" "is_log (log_rank msg p)"
  "command_bcast e w p name \<noteq> MPI_Finalize"
  by (simp_all add: command_bcast_def log_rank_def)

lemma initializeMPI_Exited:
  "initializeMPI e (p, w) = Exited code w' \<Longrightarrow>
   code = 1 \<and> (\<exists>new. w' = w @ new \<and> ends_in_error e w new)"
  by (auto simp: initializeMPI_def mpi_def fatal_def split: if_splits option.splits)

lemma initializeMPI_succeeded:
  "initializeMPI e (p, w) = Returned (p', w') \<Longrightarrow> \<exists>new. w' = w @ new \<and> succeeded e w new"
  by (auto simp: initializeMPI_def mpi_def fatal_def split: if_splits option.splits)

lemma initialize_Exited:
  "initialize e (p, w) = Exited code w' \<Longrightarrow>
   code = 1 \<and> (\<exists>new. w' = w @ new \<and> ends_in_error e w new)"
  using initializeMPI_Exited [of e p w code w']
  by (auto simp: initialize_def split: outcome.splits)

lemma initialize_succeeded:
  "initialize e (p, w) = Returned (p', w') \<Longrightarrow> \<exists>new. w' = w @ new \<and> succeeded e w new"
  using initializeMPI_succeeded [of e p w _ w']
  by (auto simp: initialize_def split: outcome.splits)

lemma startSlices_Exited:
  "startSlices e (p, w) = Exited code w' \<Longrightarrow>
   code = 1 \<and> (\<exists>new. w' = w @ new \<and> ends_in_error e w new)"
  by (auto simp: startSlices_def mpi_def fatal_def Let_def split: if_splits)

lemma startSlices_succeeded:
  "startSlices e (p, w) = Returned (p', w') \<Longrightarrow> \<exists>new. w' = w @ new \<and> succeeded e w new"
  by (auto simp: startSlices_def mpi_def fatal_def Let_def split: if_splits)

lemma invoke_Exited:
  assumes "f = invokeProcess e iStage \<or> f = invokeSyncSlices e \<or> f = invokeContinue e
           \<or> f = invokeShutdown e"
    and "f (p, w) = Exited code w'"
  shows "code = 1 \<and> (\<exists>new. w' = w @ new \<and> ends_in_error e w new)"
  using assms
  by (auto simp: invokeProcess_eq invokeSyncSlices_eq invokeContinue_eq invokeShutdown_eq
        split: if_splits)

lemma invoke_succeeded:
  assumes "f = invokeProcess e iStage \<or> f = invokeSyncSlices e \<or> f = invokeContinue e
           \<or> f = invokeShutdown e"
    and "f (p, w) = Returned (p', w')"
  shows "\<exists>new. w' = w @ new \<and> succeeded e w new"
  using assms
  by (auto simp: invokeProcess_eq invokeSyncSlices_eq invokeContinue_eq invokeShutdown_eq
        split: if_splits)

lemma step_Exited:
  assumes "step e c (p, w) = Exited code w'" and "c \<noteq> Shutdown"
  shows "code = 1 \<and> (\<exists>new. w' = w @ new \<and> ends_in_error e w new)"
proof (cases c)
  case Initialize
  with assms show ?thesis using initialize_Exited by simp
next
  case StartSlices
  with assms show ?thesis using startSlices_Exited by simp
next
  case InvokeShutdown
  with assms show ?thesis using invoke_Exited [of "invokeShutdown e" e _ p w code w'] by simp
next
  case InvokeContinue
  with assms show ?thesis using invoke_Exited [of "invokeContinue e" e _ p w code w'] by simp
next
  case InvokeSyncSlices
  with assms show ?thesis using invoke_Exited [of "invokeSyncSlices e" e _ p w code w'] by simp
next
  case (InvokeProcess i)
  with assms show ?thesis using invoke_Exited [of "invokeProcess e i" e i p w code w'] by simp
qed (use assms in simp_all)

lemma step_succeeded:
  assumes "step e c (p, w) = Returned (p', w')"
  shows "\<exists>new. w' = w @ new \<and> succeeded e w new"
proof (cases c)
  case Initialize
  with assms show ?thesis using initialize_succeeded by simp
next
  case StartSlices
  with assms show ?thesis using startSlices_succeeded by simp
next
  case InvokeShutdown
  with assms show ?thesis using invoke_succeeded [of "invokeShutdown e" e _ p w p' w'] by simp
next
  case InvokeContinue
  with assms show ?thesis using invoke_succeeded [of "invokeContinue e" e _ p w p' w'] by simp
next
  case InvokeSyncSlices
  with assms show ?thesis using invoke_succeeded [of "invokeSyncSlices e" e _ p w p' w'] by simp
next
  case (InvokeProcess i)
  with assms show ?thesis using invoke_succeeded [of "invokeProcess e i" e i p w p' w'] by simp
qed (use assms in \<open>simp_all add: shutdown_def\<close>)

text \<open>
  C5. The claim: on any fatal bootstrap error the coordinator releases the channel and
  exits with code 1. \<^verbatim>\<open>initializeMPI\<close> does that for each of its four MPI calls when the
  call returns an error, as the last line below shows for \<^verbatim>\<open>MPI_Attr_get\<close>. But when
  \<^verbatim>\<open>MPI_Attr_get\<close> itself succeeds and reports through \<^verbatim>\<open>flag\<close> that the universe size is
  not set, \<^verbatim>\<open>flag\<close> is not read and the size is read through the pointer that was never
  set: no \<^verbatim>\<open>MPI_Finalize\<close>, no \<^verbatim>\<open>exit(1)\<close>, and no defined outcome.
\<close>

theorem unreported_universe_not_fatal:
  "mpi_ret unreported [] MPI_Init = MPI_SUCCESS
   \<and> mpi_ret unreported [MPI_Init] MPI_Comm_rank = MPI_SUCCESS
   \<and> mpi_ret unreported [MPI_Init, MPI_Comm_rank] MPI_Comm_size = MPI_SUCCESS
   \<and> mpi_ret unreported [MPI_Init, MPI_Comm_rank, MPI_Comm_size] MPI_Attr_get = MPI_SUCCESS
   \<and> universe_attr unreported = None
   \<and> initializeMPI unreported (fresh, []) = Undefined
   \<and> initialize unreported (fresh, []) = Undefined
   \<and> initializeMPI (failing 3) (fresh, []) =
       Exited 1 [MPI_Init, MPI_Comm_rank, MPI_Comm_size, MPI_Attr_get, MPI_Finalize]"
  by (simp add: initialize_def initializeMPI_def mpi_def fatal_def unreported_def failing_def
      quiet_def MPI_SUCCESS_def)

subsection \<open>Spawning the fleet\<close>







subsection \<open>The command buffer\<close>

lemma run_Undefined: "run e cs Undefined = Undefined"
  by (cases cs) simp_all

lemma step_bufferSize:
  assumes "bufferSize p = 256" and "step e c (p, w) = Returned (p', w')"
  shows "bufferSize p' = 256"
proof (cases c)
  case Initialize
  with assms(2) show ?thesis
    by (auto simp: initialize_def configurePipeline_def split: outcome.splits)
next
  case StartSlices
  with assms show ?thesis
    by (auto simp: startSlices_def mpi_def fatal_def Let_def split: if_splits)
next
  case InvokeShutdown
  with assms show ?thesis by (auto simp: invokeShutdown_eq split: if_splits)
next
  case InvokeContinue
  with assms show ?thesis by (auto simp: invokeContinue_eq split: if_splits)
next
  case InvokeSyncSlices
  with assms show ?thesis by (auto simp: invokeSyncSlices_eq split: if_splits)
next
  case (InvokeProcess i)
  with assms show ?thesis by (auto simp: invokeProcess_eq split: if_splits)
next
  case Shutdown
  with assms show ?thesis by (simp add: shutdown_def)
next
  case (SetRunId r)
  with assms show ?thesis by (auto simp: setRunId_def)
next
  case (SetPolicyName n)
  with assms show ?thesis by (auto simp: setPolicyName_def)
qed

lemma run_bufferSize:
  "bufferSize p = 256 \<Longrightarrow> run e cs (Returned (p, w)) = Returned (p', w') \<Longrightarrow> bufferSize p' = 256"
proof (induction cs arbitrary: p w)
  case Nil
  then show ?case by simp
next
  case (Cons c cs)
  show ?case
  proof (cases "step e c (p, w)")
    case (Returned st)
    obtain p1 w1 where st: "st = (p1, w1)" by (cases st)
    have "bufferSize p1 = 256"
      using step_bufferSize [OF Cons.prems(1)] Returned st by simp
    moreover have "run e cs (Returned (p1, w1)) = Returned (p', w')"
      using Cons.prems(2) Returned st by simp
    ultimately show ?thesis by (rule Cons.IH)
  next
    case (Exited code v)
    with Cons.prems(2) show ?thesis by (simp add: run_Exited)
  next
    case Undefined
    with Cons.prems(2) show ?thesis by (simp add: run_Undefined)
  qed
qed

text \<open>
  C7. \<^verbatim>\<open>configurePipeline\<close> sets the capacity to 256 and no method changes it afterwards.
  Each of the four names the coordinator sends, with its terminator, is strictly shorter
  than that: on a fresh array of that size \<^verbatim>\<open>strcpy\<close> stays inside the array and writes
  the whole name and the NUL. So on a configured object, and on every object that any
  sequence of calls reaches from it, no command method writes past the end of its buffer
  or cuts a name short. A name longer than the buffer is never copied: the case of a
  framing error does not arise (the source has no check for it, and needs none).
\<close>

theorem command_names_fit:
  assumes "name \<in> {''CONTINUE'', ''SHUTDOWN'', ''SYNC'', ''PROCESS''}"
  shows "bufferSize (configurePipeline p) = 256
       \<and> length name + 1 < nat (sint (bufferSize (configurePipeline p)))
       \<and> new_array e w (bufferSize (configurePipeline p)) = Some (map (uninit e w) [0..<256])
       \<and> strcpy (map (uninit e w) [0..<256]) name = Some (sent_buffer e w 256 name)
       \<and> length (sent_buffer e w 256 name) = 256
       \<and> take (length name + 1) (sent_buffer e w 256 name) = name @ [NUL]
       \<and> invokeShutdown e (configurePipeline p, w) \<noteq> Undefined
       \<and> invokeContinue e (configurePipeline p, w) \<noteq> Undefined
       \<and> invokeSyncSlices e (configurePipeline p, w) \<noteq> Undefined
       \<and> (0 \<le> sint (nSlices p) \<longrightarrow> invokeProcess e iStage (configurePipeline p, w) \<noteq> Undefined)
       \<and> (run e cs (Returned (configurePipeline p, w)) = Returned (q, v) \<longrightarrow>
             bufferSize q = 256
           \<and> length name + 1 < nat (sint (bufferSize q))
           \<and> new_array e v (bufferSize q) = Some (map (uninit e v) [0..<256])
           \<and> strcpy (map (uninit e v) [0..<256]) name = Some (sent_buffer e v 256 name)
           \<and> invokeShutdown e (q, v) \<noteq> Undefined
           \<and> invokeContinue e (q, v) \<noteq> Undefined
           \<and> invokeSyncSlices e (q, v) \<noteq> Undefined
           \<and> (0 \<le> sint (nSlices q) \<longrightarrow> invokeProcess e iStage (q, v) \<noteq> Undefined))"
proof -
  have l: "length name < 9"
    using assms by auto
  have fit: "length name + 1 < nat (sint (bufferSize x))
           \<and> new_array e u (bufferSize x) = Some (map (uninit e u) [0..<256])
           \<and> strcpy (map (uninit e u) [0..<256]) name = Some (sent_buffer e u 256 name)
           \<and> invokeShutdown e (x, u) \<noteq> Undefined
           \<and> invokeContinue e (x, u) \<noteq> Undefined
           \<and> invokeSyncSlices e (x, u) \<noteq> Undefined
           \<and> (0 \<le> sint (nSlices x) \<longrightarrow> invokeProcess e iStage (x, u) \<noteq> Undefined)"
    if b: "bufferSize x = 256" for x u
  proof -
    have 1: "length name + 1 < nat (sint (bufferSize x))"
      using l by (simp add: b)
    have 2: "new_array e u (bufferSize x) = Some (map (uninit e u) [0..<256])"
      by (simp add: b new_array_def)
    have 3: "strcpy (map (uninit e u) [0..<256]) name = Some (sent_buffer e u 256 name)"
      using l by (simp add: strcpy_def sent_buffer_def drop_map)
    have 6: "invokeShutdown e (x, u) \<noteq> Undefined"
      by (simp add: invokeShutdown_eq b)
    have 7: "invokeContinue e (x, u) \<noteq> Undefined"
      by (simp add: invokeContinue_eq b)
    have 8: "invokeSyncSlices e (x, u) \<noteq> Undefined"
      by (simp add: invokeSyncSlices_eq b)
    have 9: "0 \<le> sint (nSlices x) \<longrightarrow> invokeProcess e iStage (x, u) \<noteq> Undefined"
      by (simp add: invokeProcess_eq b)
    from 1 2 3 6 7 8 9 show ?thesis by blast
  qed
  have c: "bufferSize (configurePipeline p) = 256" "nSlices (configurePipeline p) = nSlices p"
    by (simp_all add: configurePipeline_def)
  have 4: "length (sent_buffer e w 256 name) = 256"
    using l by (simp add: length_sent_buffer)
  have 5: "take (length name + 1) (sent_buffer e w 256 name) = name @ [NUL]"
    by (rule take_sent_buffer)
  have r: "bufferSize q = 256" if "run e cs (Returned (configurePipeline p, w)) = Returned (q, v)"
    using run_bufferSize [OF c(1) that] .
  from fit [OF c(1), of w] c 4 5 r fit [of q v] show ?thesis
    by metis
qed

theorem command_names_fit_witness:
  "''SYNC'' \<in> {''CONTINUE'', ''SHUTDOWN'', ''SYNC'', ''PROCESS''}
   \<and> bufferSize (configurePipeline fresh) = 256
   \<and> strcpy (map (uninit quiet []) [0..<256]) ''SYNC'' = Some (''SYNC'' @ [NUL] @ replicate 251 (CHR ''X''))
   \<and> invokeSyncSlices quiet (configurePipeline fresh, []) \<noteq> Undefined
   \<and> 0 \<le> sint (nSlices fresh)
   \<and> invokeProcess quiet 0 (configurePipeline fresh, []) \<noteq> Undefined
   \<and> run quiet [SetRunId (PtrTo ''run2'')] (Returned (configurePipeline fresh, []))
       = Returned (configurePipeline fresh\<lparr>runId := PtrTo ''run2''\<rparr>, [])
   \<and> bufferSize (configurePipeline fresh\<lparr>runId := PtrTo ''run2''\<rparr>) = 256
   \<and> invokeSyncSlices quiet (configurePipeline fresh\<lparr>runId := PtrTo ''run2''\<rparr>, []) \<noteq> Undefined"
proof -
  have m: "''SYNC'' \<in> {''CONTINUE'', ''SHUTDOWN'', ''SYNC'', ''PROCESS''}" by simp
  have n: "0 \<le> sint (nSlices fresh)" by (simp add: fresh_def)
  have r: "run quiet [SetRunId (PtrTo ''run2'')] (Returned (configurePipeline fresh, []))
       = Returned (configurePipeline fresh\<lparr>runId := PtrTo ''run2''\<rparr>, [])"
    by (simp add: setRunId_def)
  from command_names_fit [OF m, of fresh quiet "[]" 0 "[SetRunId (PtrTo ''run2'')]"
      "configurePipeline fresh\<lparr>runId := PtrTo ''run2''\<rparr>" "[]"] m n r
  show ?thesis
    by (simp add: quiet_buffer)
qed

lemma char_payloads_append:
  "char_payloads (xs @ ys) = char_payloads xs @ char_payloads ys"
  by (induction xs rule: char_payloads.induct) simp_all

lemma invoke_payload:
  assumes "(f, name) \<in> {(invokeProcess e iStage, ''PROCESS''), (invokeSyncSlices e, ''SYNC''),
                         (invokeContinue e, ''CONTINUE''), (invokeShutdown e, ''SHUTDOWN'')}"
    and "bufferSize p = 256"
    and "f (p, w) = Returned (p', w') \<or> f (p, w) = Exited code w'"
  shows "\<exists>w0. char_payloads w' = char_payloads w @ [sent_buffer e w0 256 name]"
  using assms
  by (auto simp: invokeProcess_eq invokeSyncSlices_eq invokeContinue_eq invokeShutdown_eq
        char_payloads_append command_bcast_def log_rank_def split: if_splits) blast+

text \<open>
  C8, as the code has it. With the capacity at 256, each command method that gets as far
  as returning or as ending the process has broadcast exactly one buffer of characters:
  256 bytes that begin with the command's name and one NUL, so that the C string in it is
  the name. Nothing is said of the bytes after the NUL: the source never writes them.
\<close>

theorem command_payload_prefix:
  assumes "(f, name) \<in> {(invokeProcess e iStage, ''PROCESS''), (invokeSyncSlices e, ''SYNC''),
                         (invokeContinue e, ''CONTINUE''), (invokeShutdown e, ''SHUTDOWN'')}"
    and "bufferSize p = 256"
    and "f (p, w) = Returned (p', w') \<or> f (p, w) = Exited code w'"
  shows "\<exists>buf. char_payloads w' = char_payloads w @ [buf] \<and> length buf = 256
             \<and> take (length name + 1) buf = name @ [NUL] \<and> c_str buf = name"
proof -
  from invoke_payload [OF assms] obtain w0 where
    w0: "char_payloads w' = char_payloads w @ [sent_buffer e w0 256 name]"
    by blast
  have n: "name \<in> {''PROCESS'', ''SYNC'', ''CONTINUE'', ''SHUTDOWN''}"
    using assms(1) by auto
  then have "length name < 9" and "NUL \<notin> set name"
    by (auto simp: NUL_def)
  then have "length (sent_buffer e w0 256 name) = 256"
    and "c_str (sent_buffer e w0 256 name) = name"
    by (simp_all add: length_sent_buffer c_str_sent_buffer)
  with w0 take_sent_buffer [of name e w0 256] show ?thesis
    by blast
qed

theorem command_payload_prefix_witness:
  "(invokeShutdown zeroed, ''SHUTDOWN'') \<in>
      {(invokeProcess zeroed 0, ''PROCESS''), (invokeSyncSlices zeroed, ''SYNC''),
       (invokeContinue zeroed, ''CONTINUE''), (invokeShutdown zeroed, ''SHUTDOWN'')}
   \<and> bufferSize ready = 256
   \<and> invokeShutdown zeroed (ready, []) =
       Returned (ready, [MPI_Bcast (CharBuf (''SHUTDOWN'' @ [NUL] @ replicate 247 NUL)) 256 7])
   \<and> char_payloads [MPI_Bcast (CharBuf (''SHUTDOWN'' @ [NUL] @ replicate 247 NUL)) 256 7]
       = [''SHUTDOWN'' @ [NUL] @ replicate 247 NUL]
   \<and> c_str (''SHUTDOWN'' @ [NUL] @ replicate 247 NUL) = ''SHUTDOWN''"
proof -
  have m: "(invokeShutdown zeroed, ''SHUTDOWN'') \<in>
      {(invokeProcess zeroed 0, ''PROCESS''), (invokeSyncSlices zeroed, ''SYNC''),
       (invokeContinue zeroed, ''CONTINUE''), (invokeShutdown zeroed, ''SHUTDOWN'')}" by simp
  have b: "bufferSize ready = 256" by (simp add: ready_def)
  have r: "invokeShutdown zeroed (ready, []) =
       Returned (ready, [MPI_Bcast (CharBuf (''SHUTDOWN'' @ [NUL] @ replicate 247 NUL)) 256 7])"
    by (simp add: invokeShutdown_eq command_bcast_def)
       (simp add: ready_def zeroed_buffer, simp add: zeroed_def quiet_def MPI_SUCCESS_def)
  from command_payload_prefix [OF m b disjI1, OF r] m b r show ?thesis
    by simp
qed

text \<open>
  C8 as stated fails: the bytes after the NUL are what the array held before. The same
  \<^verbatim>\<open>invokeShutdown\<close> on the same object sends two different payloads in two environments
  that differ only in what unwritten storage holds, and in one of them the bytes after
  the NUL are the letter X, neither zero nor space.
\<close>

theorem payload_not_padded_counterexample:
  "invokeShutdown quiet (ready, []) =
     Returned (ready, [MPI_Bcast (CharBuf (''SHUTDOWN'' @ [NUL] @ replicate 247 (CHR ''X''))) 256 7])
   \<and> invokeShutdown zeroed (ready, []) =
     Returned (ready, [MPI_Bcast (CharBuf (''SHUTDOWN'' @ [NUL] @ replicate 247 NUL)) 256 7])
   \<and> ''SHUTDOWN'' @ [NUL] @ replicate 247 (CHR ''X'') \<noteq> ''SHUTDOWN'' @ [NUL] @ replicate 247 NUL
   \<and> CHR ''X'' \<notin> {NUL, CHR '' ''}"
proof -
  have "invokeShutdown quiet (ready, []) =
     Returned (ready, [MPI_Bcast (CharBuf (''SHUTDOWN'' @ [NUL] @ replicate 247 (CHR ''X''))) 256 7])"
    by (simp add: invokeShutdown_eq command_bcast_def)
       (simp add: ready_def quiet_buffer, simp add: quiet_def MPI_SUCCESS_def)
  moreover have "invokeShutdown zeroed (ready, []) =
       Returned (ready, [MPI_Bcast (CharBuf (''SHUTDOWN'' @ [NUL] @ replicate 247 NUL)) 256 7])"
    by (simp add: invokeShutdown_eq command_bcast_def)
       (simp add: ready_def zeroed_buffer, simp add: zeroed_def quiet_def MPI_SUCCESS_def)
  moreover have "replicate 247 (CHR ''X'') \<noteq> replicate 247 NUL"
    by (simp add: NUL_def)
  ultimately show ?thesis
    by (simp add: NUL_def)
qed

subsection \<open>After shutdown\<close>

text \<open>
  \<^verbatim>\<open>shutdown\<close> ends the process: the calls a caller has written after it are never made,
  and a program that reaches \<^verbatim>\<open>shutdown\<close> does not return from it.
\<close>

lemma run_after_Shutdown:
  "run e (cs @ Shutdown # cs') out = run e (cs @ [Shutdown]) out"
proof (induction cs arbitrary: out)
  case Nil
  show ?case by (cases out) (auto simp: shutdown_def run_Exited)
next
  case (Cons c cs)
  show ?case by (cases out) (simp_all add: Cons.IH)
qed

lemma run_Shutdown_last:
  "run e (cs @ [Shutdown]) out \<noteq> Returned st"
proof (induction cs arbitrary: out)
  case Nil
  show ?case by (cases out) (auto simp: shutdown_def)
next
  case (Cons c cs)
  show ?case by (cases out) (simp_all add: Cons.IH)
qed

end
